theory Spec2Isabelle
  imports Main "HOL-Library.Word"
begin

unbundle bit_operations_syntax

section \<open>Bytes and the engine behind the wrapper\<close>

text \<open>
  \<^verbatim>\<open>std::vector<unsigned char>\<close>, \<^verbatim>\<open>leveldb::Slice\<close> and the \<^verbatim>\<open>std::string\<close> that
  \<^verbatim>\<open>leveldb::DB::Get\<close> fills are all sequences of 8-bit bytes.
\<close>

type_synonym bytes = "8 word list"

text \<open>
  \<^verbatim>\<open>leveldb::Status\<close>: a code and a message. The wrapper only asks \<^verbatim>\<open>ok()\<close>,
  \<^verbatim>\<open>IsNotFound()\<close> and \<^verbatim>\<open>ToString()\<close>.
\<close>

datatype code = kOk | kNotFound | kCorruption | kNotSupported | kInvalidArgument | kIOError

datatype status = Status code string

fun ok :: "status \<Rightarrow> bool" where
  "ok (Status c m) = (c = kOk)"

fun IsNotFound :: "status \<Rightarrow> bool" where
  "IsNotFound (Status c m) = (c = kNotFound)"

fun ToString :: "status \<Rightarrow> string" where
  "ToString (Status kOk m) = ''OK''"
| "ToString (Status kNotFound m) = ''NotFound: '' @ m"
| "ToString (Status kCorruption m) = ''Corruption: '' @ m"
| "ToString (Status kNotSupported m) = ''Not implemented: '' @ m"
| "ToString (Status kInvalidArgument m) = ''Invalid argument: '' @ m"
| "ToString (Status kIOError m) = ''IO error: '' @ m"

text \<open>
  \<^verbatim>\<open>leveldb::WriteBatch\<close> is an ordered list of puts and deletes over byte strings.
\<close>

datatype batch_op = Put bytes bytes | Delete bytes

fun apply_op :: "(bytes \<rightharpoonup> bytes) \<Rightarrow> batch_op \<Rightarrow> (bytes \<rightharpoonup> bytes)" where
  "apply_op m (Put k v) = m(k \<mapsto> v)"
| "apply_op m (Delete k) = m(k := None)"

text \<open>
  The engine (\<^verbatim>\<open>leveldb::DB\<close>, reached through \<^verbatim>\<open>pdb\<close>) is not part of the repository.
  It is modelled by its contract: a table from key bytes to value bytes, a fault that,
  when set, is the status answered to every call (and nothing is changed), and the list
  of the calls it has received, so that what the wrapper hands to the engine can be
  stated.
\<close>

datatype engine_call = GetCall bytes | WriteCall "batch_op list" bool

record engine =
  table :: "bytes \<rightharpoonup> bytes"
  fault :: "status option"
  calls :: "engine_call list"

definition db_Get :: "engine \<Rightarrow> bytes \<Rightarrow> status \<times> bytes \<times> engine" where
  "db_Get e k =
     (let e' = e\<lparr>calls := calls e @ [GetCall k]\<rparr>
      in case fault e of
           Some s \<Rightarrow> (s, [], e')
         | None \<Rightarrow>
             (case table e k of
                None \<Rightarrow> (Status kNotFound [], [], e')
              | Some v \<Rightarrow> (Status kOk [], v, e')))"

definition db_Write :: "engine \<Rightarrow> batch_op list \<Rightarrow> bool \<Rightarrow> status \<times> engine" where
  "db_Write e ops fSync =
     (let e' = e\<lparr>calls := calls e @ [WriteCall ops fSync]\<rparr>
      in case fault e of
           Some s \<Rightarrow> (s, e')
         | None \<Rightarrow> (Status kOk [], e'\<lparr>table := foldl apply_op (table e) ops\<rparr>))"

section \<open>CLevelDBBatch\<close>

text \<open>
  The batch holds the \<^verbatim>\<open>leveldb::WriteBatch\<close> and the pointer \<^verbatim>\<open>obfuscate_key\<close> it
  was constructed with (\<open>None\<close> is the null pointer). A key or a value of type \<^verbatim>\<open>K\<close>
  or \<^verbatim>\<open>V\<close> is written to a \<^verbatim>\<open>CDataStream\<close> with \<^verbatim>\<open><<\<close>; the templates are
  modelled by taking that serialization as the parameters \<open>serK\<close> and \<open>serV\<close>.
\<close>

record CLevelDBBatch =
  batch :: "batch_op list"
  batch_obfuscate_key :: "bytes option"

definition CLevelDBBatch_init :: "bytes option \<Rightarrow> CLevelDBBatch" where
  "CLevelDBBatch_init key = \<lparr>batch = [], batch_obfuscate_key = key\<rparr>"

definition batch_Write ::
  "('k \<Rightarrow> bytes) \<Rightarrow> ('v \<Rightarrow> bytes) \<Rightarrow> CLevelDBBatch \<Rightarrow> 'k \<Rightarrow> 'v \<Rightarrow> CLevelDBBatch" where
  "batch_Write serK serV b key val =
     (let slKey = serK key;
          slValue = serV val
      in b\<lparr>batch := batch b @ [Put slKey slValue]\<rparr>)"

definition batch_Erase :: "('k \<Rightarrow> bytes) \<Rightarrow> CLevelDBBatch \<Rightarrow> 'k \<Rightarrow> CLevelDBBatch" where
  "batch_Erase serK b key =
     (let slKey = serK key
      in b\<lparr>batch := batch b @ [Delete slKey]\<rparr>)"

section \<open>CLevelDBWrapper\<close>

text \<open>
  Of the wrapper's fields the operations below use \<^verbatim>\<open>pdb\<close> and \<^verbatim>\<open>obfuscate_key\<close>.
  \<open>debug_log\<close> is the process log that \<^verbatim>\<open>LogPrintf\<close> appends to; it is global in the
  program and threaded through the state here.
\<close>

record CLevelDBWrapper =
  pdb :: engine
  obfuscate_key :: bytes
  debug_log :: "string list"

datatype leveldb_error = leveldb_error string

definition LogPrintf :: "string \<Rightarrow> CLevelDBWrapper \<Rightarrow> CLevelDBWrapper" where
  "LogPrintf msg st = st\<lparr>debug_log := debug_log st @ [msg]\<rparr>"

text \<open>
  Modelled from the spec: \<^verbatim>\<open>HandleError\<close> is declared in the header
  (\<^verbatim>\<open>void HandleError(const leveldb::Status&) throw(leveldb_error)\<close>), its body is in a
  source file that is not available. Section 4.4, error mapping: every non-ok status
  is translated into a storage error carrying the engine's message and propagated; an
  ok status is no error.
\<close>

definition HandleError :: "status \<Rightarrow> leveldb_error + unit" where
  "HandleError s = (if ok s then Inr () else Inl (leveldb_error (ToString s)))"

text \<open>
  Modelled from the spec: \<^verbatim>\<open>WriteBatch\<close> is declared in the header, its body is in a
  source file that is not available. Section 4.4: \<^verbatim>\<open>write_batch\<close> submits all
  operations of the batch to the engine atomically, with the sync flag; section 7: an
  engine error is logged with the engine's message and propagated to the caller.
\<close>

definition WriteBatch ::
  "CLevelDBWrapper \<Rightarrow> CLevelDBBatch \<Rightarrow> bool \<Rightarrow> (leveldb_error + bool) \<times> CLevelDBWrapper" where
  "WriteBatch st b fSync =
     (let (s, e') = db_Write (pdb st) (batch b) fSync;
          st1 = st\<lparr>pdb := e'\<rparr>
      in case HandleError s of
           Inl err \<Rightarrow> (Inl err, LogPrintf (ToString s @ [CHR 0x0A]) st1)
         | Inr u \<Rightarrow> (Inr True, st1))"

text \<open>
  The \<^verbatim>\<open>try\<close> block of \<^verbatim>\<open>Read\<close>: \<^verbatim>\<open>ssValue >> value\<close> is the parameter \<open>unserV\<close>,
  which takes the bytes and the caller's \<^verbatim>\<open>value\<close> and returns whether it completed
  (\<open>False\<close>: it threw a \<^verbatim>\<open>std::exception\<close>) together with \<^verbatim>\<open>value\<close> as it left it.
\<close>

definition Read_try ::
  "(bytes \<Rightarrow> 'v \<Rightarrow> bool \<times> 'v) \<Rightarrow> bytes \<Rightarrow> 'v \<Rightarrow> CLevelDBWrapper
     \<Rightarrow> (leveldb_error + bool) \<times> 'v \<times> CLevelDBWrapper" where
  "Read_try unserV strValue val st =
     (case unserV strValue val of
        (True, val') \<Rightarrow> (Inr True, val', st)
      | (False, val') \<Rightarrow> (Inr False, val', st))"

definition Read ::
  "('k \<Rightarrow> bytes) \<Rightarrow> (bytes \<Rightarrow> 'v \<Rightarrow> bool \<times> 'v) \<Rightarrow> CLevelDBWrapper \<Rightarrow> 'k \<Rightarrow> 'v
     \<Rightarrow> (leveldb_error + bool) \<times> 'v \<times> CLevelDBWrapper" where
  "Read serK unserV st key val =
     (let slKey = serK key;
          (s, strValue, e') = db_Get (pdb st) slKey;
          st1 = st\<lparr>pdb := e'\<rparr>
      in if \<not> ok s then
           (if IsNotFound s then (Inr False, val, st1)
            else
              (let st2 = LogPrintf (''LevelDB read failure: '' @ ToString s @ [CHR 0x0A]) st1
               in case HandleError s of
                    Inl err \<Rightarrow> (Inl err, val, st2)
                  | Inr u \<Rightarrow> Read_try unserV strValue val st2))
         else Read_try unserV strValue val st1)"

definition Write ::
  "('k \<Rightarrow> bytes) \<Rightarrow> ('v \<Rightarrow> bytes) \<Rightarrow> CLevelDBWrapper \<Rightarrow> 'k \<Rightarrow> 'v \<Rightarrow> bool
     \<Rightarrow> (leveldb_error + bool) \<times> CLevelDBWrapper" where
  "Write serK serV st key val fSync =
     (let b0 = CLevelDBBatch_init (Some (obfuscate_key st));
          b1 = batch_Write serK serV b0 key val
      in WriteBatch st b1 fSync)"

definition Exists ::
  "('k \<Rightarrow> bytes) \<Rightarrow> CLevelDBWrapper \<Rightarrow> 'k \<Rightarrow> (leveldb_error + bool) \<times> CLevelDBWrapper" where
  "Exists serK st key =
     (let slKey = serK key;
          (s, strValue, e') = db_Get (pdb st) slKey;
          st1 = st\<lparr>pdb := e'\<rparr>
      in if \<not> ok s then
           (if IsNotFound s then (Inr False, st1)
            else
              (let st2 = LogPrintf (''LevelDB read failure: '' @ ToString s @ [CHR 0x0A]) st1
               in case HandleError s of
                    Inl err \<Rightarrow> (Inl err, st2)
                  | Inr u \<Rightarrow> (Inr True, st2)))
         else (Inr True, st1))"

definition Erase ::
  "('k \<Rightarrow> bytes) \<Rightarrow> CLevelDBWrapper \<Rightarrow> 'k \<Rightarrow> bool
     \<Rightarrow> (leveldb_error + bool) \<times> CLevelDBWrapper" where
  "Erase serK st key fSync =
     (let b0 = CLevelDBBatch_init (Some (obfuscate_key st));
          b1 = batch_Erase serK b0 key
      in WriteBatch st b1 fSync)"

definition Flush :: "CLevelDBWrapper \<Rightarrow> bool \<times> CLevelDBWrapper" where
  "Flush st = (True, st)"

definition Sync :: "CLevelDBWrapper \<Rightarrow> (leveldb_error + bool) \<times> CLevelDBWrapper" where
  "Sync st =
     (let b0 = CLevelDBBatch_init (Some (obfuscate_key st))
      in WriteBatch st b0 True)"

section \<open>The obfuscator of the specification, and a codec instance\<close>

text \<open>
  Modelled from the spec: section 4.2, \<^verbatim>\<open>apply(key_bytes, payload)\<close>: the payload XORed
  byte for byte with the obfuscation key, the key repeated cyclically over the length
  of the payload; an empty key means no obfuscation (section 3). The header has no
  function of this kind; the definition is what the values handed to the engine are
  compared with.
\<close>

fun spec_apply_from :: "nat \<Rightarrow> bytes \<Rightarrow> bytes \<Rightarrow> bytes" where
  "spec_apply_from i key [] = []"
| "spec_apply_from i key (b # bs) = (b XOR (key ! (i mod length key))) # spec_apply_from (Suc i) key bs"

definition spec_apply :: "bytes \<Rightarrow> bytes \<Rightarrow> bytes" where
  "spec_apply key payload = (if key = [] then payload else spec_apply_from 0 key payload)"

text \<open>
  Modelled from the spec: the codec (\<^verbatim>\<open>utils/serialize.h\<close>, \<^verbatim>\<open>utils/streams.h\<close>) is not
  among the sources. Section 4.1 asks for a deterministic serialization and for a
  deserialization that fails, recoverably, on truncated bytes. The instance used in the
  examples is the one-byte type \<^verbatim>\<open>unsigned char\<close>: written as its single byte; read
  from the first byte of the stream, and failing on an empty stream with the caller's
  value untouched.
\<close>

definition ser_uchar :: "8 word \<Rightarrow> bytes" where
  "ser_uchar x = [x]"

fun unser_uchar :: "bytes \<Rightarrow> 8 word \<Rightarrow> bool \<times> 8 word" where
  "unser_uchar [] old = (False, old)"
| "unser_uchar (b # bs) old = (True, b)"

text \<open>The key bytes of an operation recorded in a batch.\<close>

fun op_key :: "batch_op \<Rightarrow> bytes" where
  "op_key (Put k v) = k"
| "op_key (Delete k) = k"

text \<open>An open, healthy store with the given table and obfuscation key.\<close>

definition store_of :: "(bytes \<rightharpoonup> bytes) \<Rightarrow> bytes \<Rightarrow> CLevelDBWrapper" where
  "store_of t key =
     \<lparr>pdb = \<lparr>table = t, fault = None, calls = []\<rparr>, obfuscate_key = key, debug_log = []\<rparr>"

text \<open>The same store with an engine that answers every call with the status \<open>s\<close>.\<close>

definition failing_store :: "status \<Rightarrow> bytes \<Rightarrow> CLevelDBWrapper" where
  "failing_store s key =
     \<lparr>pdb = \<lparr>table = Map.empty, fault = Some s, calls = []\<rparr>, obfuscate_key = key, debug_log = []\<rparr>"

section \<open>What the engine is asked\<close>

lemma not_found_not_ok: "IsNotFound s \<Longrightarrow> \<not> ok s"
  by (cases s) simp

lemma db_Get_calls: "calls (snd (snd (db_Get e k))) = calls e @ [GetCall k]"
  by (simp add: db_Get_def Let_def split: option.splits)

lemma Read_calls:
  "calls (pdb (snd (snd (Read serK unserV st k val)))) = calls (pdb st) @ [GetCall (serK k)]"
proof -
  obtain s strValue e' where g: "db_Get (pdb st) (serK k) = (s, strValue, e')"
    by (cases "db_Get (pdb st) (serK k)") auto
  have c: "calls e' = calls (pdb st) @ [GetCall (serK k)]"
    using db_Get_calls [of "pdb st" "serK k"] g by simp
  obtain b v' where u: "unserV strValue val = (b, v')"
    by (cases "unserV strValue val") auto
  show ?thesis
    using g c u
    by (cases b) (simp_all add: Read_def Read_try_def LogPrintf_def HandleError_def Let_def)
qed

lemma Exists_calls:
  "calls (pdb (snd (Exists serK st k))) = calls (pdb st) @ [GetCall (serK k)]"
proof -
  obtain s strValue e' where g: "db_Get (pdb st) (serK k) = (s, strValue, e')"
    by (cases "db_Get (pdb st) (serK k)") auto
  have c: "calls e' = calls (pdb st) @ [GetCall (serK k)]"
    using db_Get_calls [of "pdb st" "serK k"] g by simp
  show ?thesis
    using g c
    by (simp add: Exists_def LogPrintf_def HandleError_def Let_def)
qed

section \<open>Round trip\<close>

text \<open>
  C1: on a store whose engine is healthy, and for a value that the codec reads back
  from its own serialization, \<^verbatim>\<open>Write(k, v)\<close> returns true, and \<^verbatim>\<open>Read(k)\<close> on the
  resulting store returns true and sets the caller's value to \<open>v\<close>.
\<close>

theorem Write_then_Read_roundtrip:
  assumes "fault (pdb st) = None" and "unserV (serV v) old = (True, v)"
  shows "fst (Write serK serV st k v fSync) = Inr True \<and>
         fst (Read serK unserV (snd (Write serK serV st k v fSync)) k old) = Inr True \<and>
         fst (snd (Read serK unserV (snd (Write serK serV st k v fSync)) k old)) = v"
  using assms
  by (simp add: Write_def Read_def WriteBatch_def CLevelDBBatch_init_def batch_Write_def
      db_Write_def db_Get_def HandleError_def Read_try_def Let_def)

text \<open>The round trip on an empty store: key 7, value 42.\<close>

theorem Write_then_Read_roundtrip_witness:
  "fault (pdb (store_of Map.empty [1,2,3,4,5,6,7,8])) = None \<and>
   unser_uchar (ser_uchar 42) 0 = (True, 42) \<and>
   fst (Write ser_uchar ser_uchar (store_of Map.empty [1,2,3,4,5,6,7,8]) 7 42 False) = Inr True \<and>
   fst (Read ser_uchar unser_uchar
          (snd (Write ser_uchar ser_uchar (store_of Map.empty [1,2,3,4,5,6,7,8]) 7 42 False))
          7 0) = Inr True \<and>
   fst (snd (Read ser_uchar unser_uchar
          (snd (Write ser_uchar ser_uchar (store_of Map.empty [1,2,3,4,5,6,7,8]) 7 42 False))
          7 0)) = 42"
proof -
  have h1: "fault (pdb (store_of Map.empty [1,2,3,4,5,6,7,8])) = None"
    by (simp add: store_of_def)
  have h2: "unser_uchar (ser_uchar 42) 0 = (True, 42)"
    by (simp add: ser_uchar_def)
  show ?thesis
    using h1 h2 Write_then_Read_roundtrip
      [where st = "store_of Map.empty [1,2,3,4,5,6,7,8]" and serV = ser_uchar
         and unserV = unser_uchar and v = 42 and old = 0 and serK = ser_uchar and k = 7
         and fSync = False]
    by simp
qed

section \<open>Obfuscation\<close>

text \<open>
  C2: the claim asks for the value bytes of a put to be the serialized value XORed
  with the obfuscation key. With the key \<open>[1,1,1,1,1,1,1,1]\<close>, key 7 and value
  \<open>0x2a\<close>, \<^verbatim>\<open>CLevelDBBatch::Write\<close> records the put with the serialized value
  \<open>[0x2a]\<close> as it is, and \<^verbatim>\<open>CLevelDBWrapper::Write\<close> submits exactly that batch; the
  XORed bytes would be \<open>[0x2b]\<close>.
\<close>

theorem batch_Write_value_is_plaintext:
  "batch (batch_Write ser_uchar ser_uchar (CLevelDBBatch_init (Some [1,1,1,1,1,1,1,1])) 7 0x2a)
     = [Put [7] [0x2a]] \<and>
   calls (pdb (snd (Write ser_uchar ser_uchar (store_of Map.empty [1,1,1,1,1,1,1,1]) 7 0x2a False)))
     = [WriteCall [Put [7] [0x2a]] False] \<and>
   spec_apply [1,1,1,1,1,1,1,1] (ser_uchar 0x2a) = [0x2b]"
  by (simp add: batch_Write_def CLevelDBBatch_init_def ser_uchar_def spec_apply_def
      Write_def WriteBatch_def db_Write_def store_of_def HandleError_def Let_def)

text \<open>
  C3: the claim asks for the raw bytes in the engine to differ from the serialized
  value when the obfuscation key is non-zero. With the key \<open>[1,1,1,1,1,1,1,1]\<close>, after
  \<^verbatim>\<open>Write(7, 0x2a)\<close> the engine's table holds the serialized value itself under the
  serialized key; \<^verbatim>\<open>Read(7)\<close> returns \<open>0x2a\<close>.
\<close>

theorem stored_bytes_equal_plaintext:
  "table (pdb (snd (Write ser_uchar ser_uchar (store_of Map.empty [1,1,1,1,1,1,1,1]) 7 0x2a False)))
     (ser_uchar 7) = Some (ser_uchar 0x2a) \<and>
   fst (snd (Read ser_uchar unser_uchar
     (snd (Write ser_uchar ser_uchar (store_of Map.empty [1,1,1,1,1,1,1,1]) 7 0x2a False)) 7 0))
     = 0x2a"
  by (simp add: batch_Write_def CLevelDBBatch_init_def ser_uchar_def
      Write_def WriteBatch_def db_Write_def store_of_def HandleError_def Let_def
      Read_def db_Get_def Read_try_def)

text \<open>
  C4: the key of the operation that \<^verbatim>\<open>CLevelDBBatch::Write\<close> and
  \<^verbatim>\<open>CLevelDBBatch::Erase\<close> append to the batch is the serialized caller key, and the
  one call that \<^verbatim>\<open>Read\<close> and \<^verbatim>\<open>Exists\<close> make to the engine is a get of the serialized
  caller key, whatever the obfuscation key of the batch or of the store is.
\<close>

theorem keys_are_serialized_unmasked:
  "map op_key (batch (batch_Write serK serV b k v)) = map op_key (batch b) @ [serK k] \<and>
   map op_key (batch (batch_Erase serK b k)) = map op_key (batch b) @ [serK k] \<and>
   calls (pdb (snd (snd (Read serK unserV st k val)))) = calls (pdb st) @ [GetCall (serK k)] \<and>
   calls (pdb (snd (Exists serK st k))) = calls (pdb st) @ [GetCall (serK k)]"
  by (simp add: batch_Write_def batch_Erase_def Read_calls Exists_calls)

section \<open>Statuses and errors\<close>

text \<open>
  C5: when the engine answers the get with a status that is not ok, \<^verbatim>\<open>Read\<close> and
  \<^verbatim>\<open>Exists\<close> return false without an error if the status is not-found; for every
  other status both append the line with the engine's message to the log and raise
  \<^verbatim>\<open>leveldb_error\<close>.
\<close>

theorem Read_Exists_status_mapping:
  assumes "fst (db_Get (pdb st) (serK k)) = s" and "\<not> ok s"
  shows "if IsNotFound s
         then fst (Read serK unserV st k val) = Inr False \<and>
              fst (Exists serK st k) = Inr False
         else fst (Read serK unserV st k val) = Inl (leveldb_error (ToString s)) \<and>
              debug_log (snd (snd (Read serK unserV st k val))) =
                debug_log st @ [''LevelDB read failure: '' @ ToString s @ [CHR 0x0A]] \<and>
              fst (Exists serK st k) = Inl (leveldb_error (ToString s)) \<and>
              debug_log (snd (Exists serK st k)) =
                debug_log st @ [''LevelDB read failure: '' @ ToString s @ [CHR 0x0A]]"
proof -
  obtain strValue e' where g: "db_Get (pdb st) (serK k) = (s, strValue, e')"
    using assms(1) by (cases "db_Get (pdb st) (serK k)") auto
  show ?thesis
    using g assms(2)
    by (simp add: Read_def Exists_def LogPrintf_def HandleError_def Let_def)
qed

text \<open>
  An absent key on a healthy engine, and the same call on an engine that answers with an
  I/O error.
\<close>

theorem Read_Exists_status_mapping_witness:
  "fst (db_Get (pdb (store_of Map.empty [1,2,3,4,5,6,7,8])) (ser_uchar 7)) = Status kNotFound [] \<and>
   \<not> ok (Status kNotFound []) \<and>
   fst (Read ser_uchar unser_uchar (store_of Map.empty [1,2,3,4,5,6,7,8]) 7 0) = Inr False \<and>
   fst (Exists ser_uchar (store_of Map.empty [1,2,3,4,5,6,7,8]) 7) = Inr False \<and>
   fst (db_Get (pdb (failing_store (Status kIOError ''disk'') [1,2,3,4,5,6,7,8])) (ser_uchar 7))
     = Status kIOError ''disk'' \<and>
   \<not> ok (Status kIOError ''disk'') \<and>
   fst (Read ser_uchar unser_uchar (failing_store (Status kIOError ''disk'') [1,2,3,4,5,6,7,8]) 7 0)
     = Inl (leveldb_error ''IO error: disk'') \<and>
   debug_log (snd (snd (Read ser_uchar unser_uchar
       (failing_store (Status kIOError ''disk'') [1,2,3,4,5,6,7,8]) 7 0)))
     = [''LevelDB read failure: IO error: disk'' @ [CHR 0x0A]] \<and>
   fst (Exists ser_uchar (failing_store (Status kIOError ''disk'') [1,2,3,4,5,6,7,8]) 7)
     = Inl (leveldb_error ''IO error: disk'') \<and>
   debug_log (snd (Exists ser_uchar (failing_store (Status kIOError ''disk'') [1,2,3,4,5,6,7,8]) 7))
     = [''LevelDB read failure: IO error: disk'' @ [CHR 0x0A]]"
proof -
  have a1: "fst (db_Get (pdb (store_of Map.empty [1,2,3,4,5,6,7,8])) (ser_uchar 7))
              = Status kNotFound []"
    by (simp add: db_Get_def store_of_def)
  have a2: "\<not> ok (Status kNotFound [])" by simp
  have b1: "fst (db_Get (pdb (failing_store (Status kIOError ''disk'') [1,2,3,4,5,6,7,8]))
              (ser_uchar 7)) = Status kIOError ''disk''"
    by (simp add: db_Get_def failing_store_def)
  have b2: "\<not> ok (Status kIOError ''disk'')" by simp
  have d: "debug_log (failing_store (Status kIOError ''disk'') [1,2,3,4,5,6,7,8]) = []"
    by (simp add: failing_store_def)
  show ?thesis
    using a1 a2 b1 b2 d
      Read_Exists_status_mapping
        [where st = "store_of Map.empty [1,2,3,4,5,6,7,8]" and serK = ser_uchar and k = 7
           and s = "Status kNotFound []" and unserV = unser_uchar and val = 0]
      Read_Exists_status_mapping
        [where st = "failing_store (Status kIOError ''disk'') [1,2,3,4,5,6,7,8]"
           and serK = ser_uchar and k = 7 and s = "Status kIOError ''disk''"
           and unserV = unser_uchar and val = 0]
    by simp
qed

text \<open>
  C6: when the engine answers the get with ok and value bytes on which the
  deserialization throws, \<^verbatim>\<open>Read\<close> returns false and raises nothing.
\<close>

theorem Read_undecodable_returns_false:
  assumes "db_Get (pdb st) (serK k) = (s, strValue, e')"
    and "ok s"
    and "fst (unserV strValue val) = False"
  shows "fst (Read serK unserV st k val) = Inr False"
proof -
  obtain v' where u: "unserV strValue val = (False, v')"
    using assms(3) by (cases "unserV strValue val") auto
  show ?thesis
    using assms(1,2) u by (simp add: Read_def Read_try_def Let_def)
qed

text \<open>Key 7 is stored with no value bytes, from which no \<^verbatim>\<open>unsigned char\<close> can be read.\<close>

theorem Read_undecodable_returns_false_witness:
  "db_Get (pdb (store_of [[7] \<mapsto> []] [1,2,3,4,5,6,7,8])) (ser_uchar 7)
     = (Status kOk [], [], (pdb (store_of [[7] \<mapsto> []] [1,2,3,4,5,6,7,8]))\<lparr>calls := [GetCall [7]]\<rparr>) \<and>
   ok (Status kOk []) \<and>
   fst (unser_uchar [] 0) = False \<and>
   fst (Read ser_uchar unser_uchar (store_of [[7] \<mapsto> []] [1,2,3,4,5,6,7,8]) 7 0) = Inr False"
proof -
  have h1: "db_Get (pdb (store_of [[7] \<mapsto> []] [1,2,3,4,5,6,7,8])) (ser_uchar 7)
     = (Status kOk [], [], (pdb (store_of [[7] \<mapsto> []] [1,2,3,4,5,6,7,8]))\<lparr>calls := [GetCall [7]]\<rparr>)"
    by (simp add: db_Get_def store_of_def ser_uchar_def)
  have h2: "ok (Status kOk [])" by simp
  have h3: "fst (unser_uchar [] 0) = False" by simp
  show ?thesis
    using h1 h2 h3 Read_undecodable_returns_false
      [where st = "store_of [[7] \<mapsto> []] [1,2,3,4,5,6,7,8]" and serK = ser_uchar and k = 7
         and s = "Status kOk []" and strValue = "[]"
         and e' = "(pdb (store_of [[7] \<mapsto> []] [1,2,3,4,5,6,7,8]))\<lparr>calls := [GetCall [7]]\<rparr>"
         and unserV = unser_uchar and val = 0]
    by simp
qed

section \<open>Single operations as batches\<close>

text \<open>
  C7: \<^verbatim>\<open>Write(k, v, fSync)\<close> is \<^verbatim>\<open>WriteBatch\<close>, with the same flag, of the batch obtained
  by one \<^verbatim>\<open>CLevelDBBatch::Write(k, v)\<close> on a new batch, which holds the one put;
  \<^verbatim>\<open>Erase(k, fSync)\<close> is \<^verbatim>\<open>WriteBatch\<close> of the batch obtained by one
  \<^verbatim>\<open>CLevelDBBatch::Erase(k)\<close>, which holds the one delete; \<^verbatim>\<open>Sync()\<close> is
  \<^verbatim>\<open>WriteBatch\<close> of a new batch, which holds nothing, with the flag true.
\<close>

theorem Write_Erase_Sync_submit_batches:
  "Write serK serV st k v fSync =
     WriteBatch st (batch_Write serK serV (CLevelDBBatch_init (Some (obfuscate_key st))) k v) fSync \<and>
   batch (batch_Write serK serV (CLevelDBBatch_init (Some (obfuscate_key st))) k v) =
     [Put (serK k) (serV v)] \<and>
   Erase serK st k fSync =
     WriteBatch st (batch_Erase serK (CLevelDBBatch_init (Some (obfuscate_key st))) k) fSync \<and>
   batch (batch_Erase serK (CLevelDBBatch_init (Some (obfuscate_key st))) k) = [Delete (serK k)] \<and>
   Sync st = WriteBatch st (CLevelDBBatch_init (Some (obfuscate_key st))) True \<and>
   batch (CLevelDBBatch_init (Some (obfuscate_key st))) = []"
  by (simp add: Write_def Erase_def Sync_def batch_Write_def batch_Erase_def
      CLevelDBBatch_init_def)

section \<open>Exists, Read and Flush\<close>

text \<open>
  C8: \<^verbatim>\<open>Exists\<close> makes one get of the serialized key and answers true exactly when the
  status of that get is ok: it is never given the value type and never looks at the
  bytes. So in every store state where the engine answers the get of the key with ok
  and with value bytes on which the deserialization into the requested type throws,
  \<^verbatim>\<open>Exists\<close> returns true while \<^verbatim>\<open>Read\<close> returns false.
\<close>

theorem Exists_true_while_Read_false:
  "(fst (Exists serK st k) = Inr True \<longleftrightarrow> ok (fst (db_Get (pdb st) (serK k)))) \<and>
   (fst (Exists serK st k) = Inr False \<longleftrightarrow> IsNotFound (fst (db_Get (pdb st) (serK k)))) \<and>
   calls (pdb (snd (Exists serK st k))) = calls (pdb st) @ [GetCall (serK k)] \<and>
   (ok (fst (db_Get (pdb st) (serK k))) \<and>
    \<not> fst (unserV (fst (snd (db_Get (pdb st) (serK k)))) val)
    \<longrightarrow> fst (Exists serK st k) = Inr True \<and> fst (Read serK unserV st k val) = Inr False)"
proof -
  obtain s strValue e' where g: "db_Get (pdb st) (serK k) = (s, strValue, e')"
    by (cases "db_Get (pdb st) (serK k)") auto
  obtain c m where s: "s = Status c m"
    by (cases s) auto
  have ex_true: "fst (Exists serK st k) = Inr True \<longleftrightarrow> ok s"
    using g s by (simp add: Exists_def HandleError_def Let_def)
  have ex_false: "fst (Exists serK st k) = Inr False \<longleftrightarrow> IsNotFound s"
    using g s by (simp add: Exists_def HandleError_def Let_def)
  have rd: "fst (Read serK unserV st k val) = Inr False"
    if okv: "ok s" and bad: "\<not> fst (unserV strValue val)"
  proof -
    obtain v' where u: "unserV strValue val = (False, v')"
      using bad by (cases "unserV strValue val") auto
    show ?thesis
      using okv g u by (simp add: Read_def Read_try_def Let_def)
  qed
  show ?thesis
    using ex_true ex_false rd g by (simp add: Exists_calls)
qed

text \<open>
  Such a state: key 9 is stored with no value bytes, so \<^verbatim>\<open>Exists(9)\<close> is true and
  \<^verbatim>\<open>Read(9)\<close> is false; key 3 is absent from the same store, and \<^verbatim>\<open>Exists(3)\<close> is
  false.
\<close>

theorem Exists_true_while_Read_false_witness:
  "ok (fst (db_Get (pdb (store_of [[9] \<mapsto> []] [1,2,3,4,5,6,7,8])) (ser_uchar 9))) \<and>
   \<not> fst (unser_uchar (fst (snd (db_Get (pdb (store_of [[9] \<mapsto> []] [1,2,3,4,5,6,7,8]))
        (ser_uchar 9)))) 0) \<and>
   fst (Exists ser_uchar (store_of [[9] \<mapsto> []] [1,2,3,4,5,6,7,8]) 9) = Inr True \<and>
   fst (Read ser_uchar unser_uchar (store_of [[9] \<mapsto> []] [1,2,3,4,5,6,7,8]) 9 0) = Inr False \<and>
   IsNotFound (fst (db_Get (pdb (store_of [[9] \<mapsto> []] [1,2,3,4,5,6,7,8])) (ser_uchar 3))) \<and>
   fst (Exists ser_uchar (store_of [[9] \<mapsto> []] [1,2,3,4,5,6,7,8]) 3) = Inr False"
proof -
  have h1: "ok (fst (db_Get (pdb (store_of [[9] \<mapsto> []] [1,2,3,4,5,6,7,8])) (ser_uchar 9)))"
    by (simp add: db_Get_def store_of_def ser_uchar_def)
  have h2: "\<not> fst (unser_uchar (fst (snd (db_Get (pdb (store_of [[9] \<mapsto> []] [1,2,3,4,5,6,7,8]))
        (ser_uchar 9)))) 0)"
    by (simp add: db_Get_def store_of_def ser_uchar_def)
  have h3: "IsNotFound (fst (db_Get (pdb (store_of [[9] \<mapsto> []] [1,2,3,4,5,6,7,8]))
        (ser_uchar 3)))"
    by (simp add: db_Get_def store_of_def ser_uchar_def)
  show ?thesis
    using h1 h2 h3
      Exists_true_while_Read_false
        [where st = "store_of [[9] \<mapsto> []] [1,2,3,4,5,6,7,8]" and serK = ser_uchar and k = 9
           and unserV = unser_uchar and val = 0]
      Exists_true_while_Read_false
        [where st = "store_of [[9] \<mapsto> []] [1,2,3,4,5,6,7,8]" and serK = ser_uchar and k = 3
           and unserV = unser_uchar and val = 0]
    by simp
qed

text \<open>
  C9: when the engine answers the get of the serialized key with not-found, \<^verbatim>\<open>Read\<close>
  returns false and the caller's value is what it was before the call.
\<close>

theorem Read_not_found_leaves_value:
  assumes "IsNotFound (fst (db_Get (pdb st) (serK k)))"
  shows "fst (Read serK unserV st k val) = Inr False \<and>
         fst (snd (Read serK unserV st k val)) = val"
proof -
  obtain s strValue e' where g: "db_Get (pdb st) (serK k) = (s, strValue, e')"
    by (cases "db_Get (pdb st) (serK k)") auto
  have nf: "IsNotFound s" using assms g by simp
  then have "\<not> ok s" by (rule not_found_not_ok)
  with nf show ?thesis
    using g by (simp add: Read_def Let_def)
qed

text \<open>An absent key, read into a value that holds 99.\<close>

theorem Read_not_found_leaves_value_witness:
  "IsNotFound (fst (db_Get (pdb (store_of Map.empty [1,2,3,4,5,6,7,8])) (ser_uchar 3))) \<and>
   fst (Read ser_uchar unser_uchar (store_of Map.empty [1,2,3,4,5,6,7,8]) 3 99) = Inr False \<and>
   fst (snd (Read ser_uchar unser_uchar (store_of Map.empty [1,2,3,4,5,6,7,8]) 3 99)) = 99"
proof -
  have h: "IsNotFound (fst (db_Get (pdb (store_of Map.empty [1,2,3,4,5,6,7,8])) (ser_uchar 3)))"
    by (simp add: db_Get_def store_of_def)
  show ?thesis
    using h Read_not_found_leaves_value
      [where st = "store_of Map.empty [1,2,3,4,5,6,7,8]" and serK = ser_uchar and k = 3
         and unserV = unser_uchar and val = 99]
    by simp
qed

text \<open>
  C10: for every store state, \<^verbatim>\<open>Flush\<close> returns true and leaves the store, and with it
  the engine and the list of calls the engine has received, exactly as it was; \<^verbatim>\<open>Sync\<close>
  on the contrary submits a batch with no operation through \<^verbatim>\<open>WriteBatch\<close> with the
  sync flag set.
\<close>

theorem Flush_is_noop:
  "Flush st = (True, st) \<and>
   calls (pdb (snd (Flush st))) = calls (pdb st) \<and>
   Sync st = WriteBatch st \<lparr>batch = [], batch_obfuscate_key = Some (obfuscate_key st)\<rparr> True"
  by (simp add: Flush_def Sync_def CLevelDBBatch_init_def)

end
